theory Spec2Isabelle
  imports Main "HOL-Library.Sublist"
begin

section \<open>The browser as seen by the acceptance tests\<close>

text \<open>
  \<^verbatim>\<open>tests/e2e/critical.spec.js\<close> drives a browser page against a live site. The site and
  the browser are external: the model takes them as a parameter, a function from the URL
  handed to \<^verbatim>\<open>page.goto\<close> to what the page does there. Everything the scripts themselves do
  (the order of the calls, the expectations, the branches, the thrown error) is modelled
  call by call.
\<close>

text \<open>A navigation response; the scripts read only its HTTP status.\<close>

datatype response = Response (status: nat)

text \<open>
  \<^verbatim>\<open>page.goto(url)\<close> resolves to a response or to \<^verbatim>\<open>null\<close>, or rejects (network error,
  navigation timeout).
\<close>

datatype nav_result = NavThrows | NavReturns "response option"

text \<open>
  \<^verbatim>\<open>locator.getAttribute(name)\<close> waits for the element and resolves to the attribute value
  or to \<^verbatim>\<open>null\<close>; it rejects when no element turns up in time. The time budget of a whole
  test is set in the runner's configuration, which is not part of the scripts, and is not
  modelled.
\<close>

datatype attr_result = AttrThrows | AttrReturns "string option"

text \<open>
  The locators the scripts build: \<^verbatim>\<open>page.locator(css)\<close>,
  \<^verbatim>\<open>page.getByRole('heading', {name: /re/i})\<close> and \<^verbatim>\<open>locator.first()\<close>.
\<close>

datatype locator = Css string | HeadingNamed string | First locator

text \<open>
  A loaded document. The retrying expectations (\<^verbatim>\<open>toHaveTitle\<close>, \<^verbatim>\<open>toHaveURL\<close>,
  \<^verbatim>\<open>toBeVisible\<close>) poll until their timeout, so what they observe is indexed by the
  milliseconds elapsed since the expectation started.
\<close>

record document =
  network_idle :: bool
  title_at :: "nat \<Rightarrow> string"
  url_at :: "nat \<Rightarrow> string"
  visible_at :: "locator \<Rightarrow> nat \<Rightarrow> bool"
  count_of :: "locator \<Rightarrow> nat"
  attribute_of :: "locator \<Rightarrow> string \<Rightarrow> attr_result"

record page_load =
  nav :: nav_result
  doc :: document

type_synonym site = "string \<Rightarrow> page_load"

section \<open>Test actions\<close>

text \<open>
  Every call a script makes is recorded as an event, with what it received. A script that
  fails stops at the failing event.
\<close>

datatype event =
    Goto string nav_result
  | ExpectToBe "nat option" nat
  | WaitForLoadState bool
  | ExpectToHaveTitle string nat bool
  | ExpectToHaveURL string nat bool
  | ExpectToBeVisible locator nat bool
  | Count locator nat
  | ExpectToBeGreaterThan nat nat
  | GetAttribute locator string attr_result
  | ExpectToBeTruthy "string option"
  | ThrowError string

record test_state =
  location :: string
  trace :: "event list"

type_synonym 'a action = "test_state \<Rightarrow> (event + 'a) \<times> test_state"

definition emit :: "event \<Rightarrow> test_state \<Rightarrow> test_state" where
  "emit e s = s\<lparr>trace := trace s @ [e]\<rparr>"

definition and_then :: "'a action \<Rightarrow> ('a \<Rightarrow> 'b action) \<Rightarrow> 'b action" where
  "and_then m k s = (case m s of (Inl e, s') \<Rightarrow> (Inl e, s') | (Inr x, s') \<Rightarrow> k x s')"

text \<open>An expectation: recorded, and the script goes on only if it holds.\<close>

definition check :: "event \<Rightarrow> bool \<Rightarrow> unit action" where
  "check e ok s = (if ok then Inr () else Inl e, emit e s)"

text \<open>\<^verbatim>\<open>await page.goto(url)\<close>\<close>

definition goto :: "site \<Rightarrow> string \<Rightarrow> response option action" where
  "goto st url s =
     (case nav (st url) of
        NavThrows \<Rightarrow> (Inl (Goto url NavThrows), emit (Goto url NavThrows) s)
      | NavReturns r \<Rightarrow> (Inr r, emit (Goto url (NavReturns r)) (s\<lparr>location := url\<rparr>)))"

text \<open>\<^verbatim>\<open>response?.status()\<close>: \<^verbatim>\<open>undefined\<close> when there is no response.\<close>

definition status_of :: "response option \<Rightarrow> nat option" where
  "status_of r = map_option status r"

text \<open>\<^verbatim>\<open>expect(received).toBe(expected)\<close>\<close>

definition expect_to_be :: "nat option \<Rightarrow> nat \<Rightarrow> unit action" where
  "expect_to_be received expected =
     check (ExpectToBe received expected) (received = Some expected)"

text \<open>
  \<^verbatim>\<open>await page.waitForLoadState('networkidle')\<close>: resolves once the network has idled; on a
  page whose network never idles the wait ends in a timeout error and the script fails there.
\<close>

definition wait_for_load_state :: "site \<Rightarrow> unit action" where
  "wait_for_load_state st s =
     check (WaitForLoadState (network_idle (doc (st (location s)))))
           (network_idle (doc (st (location s)))) s"

text \<open>A retrying expectation holds if its condition holds at some poll within the timeout.\<close>

definition within :: "nat \<Rightarrow> (nat \<Rightarrow> bool) \<Rightarrow> bool" where
  "within timeout P = list_ex P [0..<Suc timeout]"

text \<open>A regular expression that is a plain word, such as \<^verbatim>\<open>/Hydrogen/\<close>, tests for a substring.\<close>

fun regex_test :: "string \<Rightarrow> string \<Rightarrow> bool" where
  "regex_test word [] = (word = [])"
| "regex_test word (c # cs) = (prefix word (c # cs) \<or> regex_test word cs)"

text \<open>\<^verbatim>\<open>await expect(page).toHaveTitle(/word/, {timeout})\<close>\<close>

definition expect_to_have_title :: "site \<Rightarrow> string \<Rightarrow> nat \<Rightarrow> unit action" where
  "expect_to_have_title st word timeout s =
     (let ok = within timeout (\<lambda>d. regex_test word (title_at (doc (st (location s))) d))
      in check (ExpectToHaveTitle word timeout ok) ok s)"

text \<open>\<^verbatim>\<open>await expect(page).toHaveURL(/word/, {timeout})\<close>\<close>

definition expect_to_have_url :: "site \<Rightarrow> string \<Rightarrow> nat \<Rightarrow> unit action" where
  "expect_to_have_url st word timeout s =
     (let ok = within timeout (\<lambda>d. regex_test word (url_at (doc (st (location s))) d))
      in check (ExpectToHaveURL word timeout ok) ok s)"

text \<open>\<^verbatim>\<open>await expect(locator).toBeVisible({timeout})\<close>\<close>

definition expect_to_be_visible :: "site \<Rightarrow> locator \<Rightarrow> nat \<Rightarrow> unit action" where
  "expect_to_be_visible st l timeout s =
     (let ok = within timeout (visible_at (doc (st (location s))) l)
      in check (ExpectToBeVisible l timeout ok) ok s)"

text \<open>\<^verbatim>\<open>await locator.count()\<close>\<close>

definition count :: "site \<Rightarrow> locator \<Rightarrow> nat action" where
  "count st l s =
     (let n = count_of (doc (st (location s))) l in (Inr n, emit (Count l n) s))"

text \<open>\<^verbatim>\<open>expect(received).toBeGreaterThan(bound)\<close>\<close>

definition expect_to_be_greater_than :: "nat \<Rightarrow> nat \<Rightarrow> unit action" where
  "expect_to_be_greater_than received bound =
     check (ExpectToBeGreaterThan received bound) (received > bound)"

text \<open>\<^verbatim>\<open>await locator.getAttribute(name)\<close>\<close>

definition get_attribute :: "site \<Rightarrow> locator \<Rightarrow> string \<Rightarrow> string option action" where
  "get_attribute st l name s =
     (let r = attribute_of (doc (st (location s))) l name; s' = emit (GetAttribute l name r) s
      in case r of AttrThrows \<Rightarrow> (Inl (GetAttribute l name r), s') | AttrReturns v \<Rightarrow> (Inr v, s'))"

text \<open>\<^verbatim>\<open>await locator.getAttribute(name).catch(() => null)\<close>\<close>

definition get_attribute_catch_null :: "site \<Rightarrow> locator \<Rightarrow> string \<Rightarrow> string option action" where
  "get_attribute_catch_null st l name s =
     (let r = attribute_of (doc (st (location s))) l name; s' = emit (GetAttribute l name r) s
      in case r of AttrThrows \<Rightarrow> (Inr None, s') | AttrReturns v \<Rightarrow> (Inr v, s'))"

text \<open>JavaScript truthiness of a \<^verbatim>\<open>string | null\<close>: neither \<^verbatim>\<open>null\<close> nor the empty string.\<close>

fun truthy :: "string option \<Rightarrow> bool" where
  "truthy None = False"
| "truthy (Some v) = (v \<noteq> [])"

text \<open>\<^verbatim>\<open>expect(received).toBeTruthy()\<close>\<close>

definition expect_to_be_truthy :: "string option \<Rightarrow> unit action" where
  "expect_to_be_truthy received = check (ExpectToBeTruthy received) (truthy received)"

text \<open>\<^verbatim>\<open>throw new Error(message)\<close>\<close>

definition throw_error :: "string \<Rightarrow> 'a action" where
  "throw_error message s = (Inl (ThrowError message), emit (ThrowError message) s)"

text \<open>
  \<^verbatim>\<open>if (!value) { throw new Error(message); }\<close>: past the guard the value is a non-empty
  string.
\<close>

definition throw_if_falsy :: "string option \<Rightarrow> string \<Rightarrow> string action" where
  "throw_if_falsy v message =
     (case v of
        None \<Rightarrow> throw_error message
      | Some u \<Rightarrow> if u = [] then throw_error message else (\<lambda>s. (Inr u, s)))"

section \<open>The four scenarios of critical.spec.js\<close>

text \<open>\<^verbatim>\<open>test('app loads successfully', ...)\<close>\<close>

definition app_loads_successfully :: "site \<Rightarrow> unit action" where
  "app_loads_successfully st =
     and_then (goto st ''/'') (\<lambda>response.
     and_then (expect_to_be (status_of response) 200) (\<lambda>_.
     and_then (wait_for_load_state st) (\<lambda>_.
     expect_to_have_title st ''Hydrogen'' 10000)))"

text \<open>\<^verbatim>\<open>test('homepage renders products', ...)\<close>\<close>

definition homepage_renders_products :: "site \<Rightarrow> unit action" where
  "homepage_renders_products st =
     and_then (goto st ''/'') (\<lambda>response.
     and_then (expect_to_be (status_of response) 200) (\<lambda>_.
     and_then (wait_for_load_state st) (\<lambda>_.
     and_then (expect_to_be_visible st (HeadingNamed ''recommended products'') 15000) (\<lambda>_.
     and_then (expect_to_be_visible st (Css ''.recommended-products-grid'') 15000) (\<lambda>_.
     and_then (count st (Css ''.product-item'')) (\<lambda>n.
     and_then (expect_to_be_greater_than n 0) (\<lambda>_.
     expect_to_be_visible st (First (Css ''.product-item'')) 10000)))))))"

text \<open>\<^verbatim>\<open>test('product page loads and renders product details', ...)\<close>\<close>

definition product_page_loads_and_renders_product_details :: "site \<Rightarrow> unit action" where
  "product_page_loads_and_renders_product_details st =
     and_then (goto st ''/'') (\<lambda>response.
     and_then (expect_to_be (status_of response) 200) (\<lambda>_.
     and_then (wait_for_load_state st) (\<lambda>_.
     and_then (expect_to_be_visible st (Css ''.recommended-products-grid'') 15000) (\<lambda>_.
     and_then (expect_to_be_visible st (First (Css ''.product-item'')) 10000) (\<lambda>_.
     and_then (get_attribute st (First (Css ''.product-item'')) ''href'') (\<lambda>productUrl.
     and_then (expect_to_be_truthy productUrl) (\<lambda>_.
     and_then (throw_if_falsy productUrl ''No product URL found on homepage'') (\<lambda>url.
     and_then (goto st url) (\<lambda>productResponse.
     and_then (expect_to_be (status_of productResponse) 200) (\<lambda>_.
     and_then (wait_for_load_state st) (\<lambda>_.
     and_then (expect_to_be_visible st (Css ''h1'') 10000) (\<lambda>_.
     expect_to_be_visible st (Css ''.product'') 10000))))))))))))"

text \<open>\<^verbatim>\<open>test('collections page loads and displays products', ...)\<close>\<close>

definition collection_link_branch :: "site \<Rightarrow> string \<Rightarrow> unit action" where
  "collection_link_branch st collectionHref =
     and_then (goto st collectionHref) (\<lambda>collectionResponse.
     and_then (expect_to_be (status_of collectionResponse) 200) (\<lambda>_.
     and_then (wait_for_load_state st) (\<lambda>_.
     and_then (expect_to_be_visible st (Css ''h1'') 15000) (\<lambda>_.
     expect_to_be_visible st (Css ''.products-grid'') 15000))))"

definition collections_fallback_branch :: "site \<Rightarrow> unit action" where
  "collections_fallback_branch st =
     and_then (goto st ''/collections'') (\<lambda>collectionsResponse.
     and_then (expect_to_be (status_of collectionsResponse) 200) (\<lambda>_.
     expect_to_have_url st ''collections'' 10000))"

definition collections_page_loads_and_displays_products :: "site \<Rightarrow> unit action" where
  "collections_page_loads_and_displays_products st =
     and_then (goto st ''/'') (\<lambda>response.
     and_then (expect_to_be (status_of response) 200) (\<lambda>_.
     and_then (wait_for_load_state st) (\<lambda>_.
     and_then (get_attribute_catch_null st
                 (First (Css ''.featured-collection, a[href*=\"/collections/\"]'')) ''href'')
       (\<lambda>collectionHref.
     case collectionHref of
       Some href \<Rightarrow>
         if href \<noteq> [] then collection_link_branch st href
         else collections_fallback_branch st
     | None \<Rightarrow> collections_fallback_branch st))))"

text \<open>Each test starts on a fresh page.\<close>

definition fresh_page :: test_state where
  "fresh_page = \<lparr>location = ''about:blank'', trace = []\<rparr>"

definition run :: "unit action \<Rightarrow> (event + unit) \<times> event list" where
  "run script = (case script fresh_page of (r, s) \<Rightarrow> (r, trace s))"

definition passes :: "unit action \<Rightarrow> bool" where
  "passes script = (fst (run script) = Inr ())"

subsection \<open>What the scenarios are said to establish\<close>

text \<open>A navigation to \<open>url\<close> that returns a response with status 200.\<close>

definition responds_200 :: "site \<Rightarrow> string \<Rightarrow> bool" where
  "responds_200 st url =
     (case nav (st url) of NavThrows \<Rightarrow> False | NavReturns r \<Rightarrow> status_of r = Some 200)"

text \<open>The page at \<open>url\<close> reaches the network-idle load state.\<close>

definition reaches_network_idle :: "site \<Rightarrow> string \<Rightarrow> bool" where
  "reaches_network_idle st url = network_idle (doc (st url))"

text \<open>The title of the root page contains the app marker within ten seconds.\<close>

definition title_has_marker :: "site \<Rightarrow> bool" where
  "title_has_marker st = within 10000 (\<lambda>d. regex_test ''Hydrogen'' (title_at (doc (st ''/'')) d))"

text \<open>The number of product items the homepage renders.\<close>

definition rendered_product_items :: "site \<Rightarrow> nat" where
  "rendered_product_items st = count_of (doc (st ''/'')) (Css ''.product-item'')"

text \<open>
  The homepage shows the recommended-products heading, and the recommended-products grid,
  within fifteen seconds.
\<close>

definition displays_recommended_heading :: "site \<Rightarrow> bool" where
  "displays_recommended_heading st =
     within 15000 (visible_at (doc (st ''/'')) (HeadingNamed ''recommended products''))"

definition displays_recommended_grid :: "site \<Rightarrow> bool" where
  "displays_recommended_grid st =
     within 15000 (visible_at (doc (st ''/'')) (Css ''.recommended-products-grid''))"

text \<open>A run that ended in an error object thrown by the script's own \<^verbatim>\<open>throw\<close>.\<close>

fun ends_in_thrown_error :: "event + unit \<Rightarrow> bool" where
  "ends_in_thrown_error (Inl (ThrowError message)) = True"
| "ends_in_thrown_error r = False"

text \<open>
  The collection link the homepage offers, if any: the \<^verbatim>\<open>href\<close> of the first element
  matching the featured-collection selector, when there is such an element and its
  \<^verbatim>\<open>href\<close> is a non-empty string.
\<close>

definition discoverable_collection_link :: "site \<Rightarrow> string option" where
  "discoverable_collection_link st =
     (case attribute_of (doc (st ''/''))
             (First (Css ''.featured-collection, a[href*=\"/collections/\"]'')) ''href'' of
        AttrThrows \<Rightarrow> None
      | AttrReturns None \<Rightarrow> None
      | AttrReturns (Some href) \<Rightarrow> if href \<noteq> [] then Some href else None)"

text \<open>The page at \<open>url\<close> shows a heading, and a product grid, within fifteen seconds.\<close>

definition displays_heading :: "site \<Rightarrow> string \<Rightarrow> bool" where
  "displays_heading st url = within 15000 (visible_at (doc (st url)) (Css ''h1''))"

definition displays_product_grid :: "site \<Rightarrow> string \<Rightarrow> bool" where
  "displays_product_grid st url = within 15000 (visible_at (doc (st url)) (Css ''.products-grid''))"

text \<open>The URL of the page at \<open>url\<close> matches \<^verbatim>\<open>/collections/\<close> within ten seconds.\<close>

definition url_matches_collections :: "site \<Rightarrow> string \<Rightarrow> bool" where
  "url_matches_collections st url =
     within 10000 (\<lambda>d. regex_test ''collections'' (url_at (doc (st url)) d))"

text \<open>An event that is a check of some element's visibility.\<close>

fun is_visibility_check :: "event \<Rightarrow> bool" where
  "is_visibility_check (ExpectToBeVisible l timeout ok) = True"
| "is_visibility_check e = False"



subsection \<open>Sample sites\<close>

text \<open>A storefront on which every scenario passes.\<close>

definition all_ok_doc :: document where
  "all_ok_doc =
     \<lparr>network_idle = True,
      title_at = (\<lambda>_. ''Hydrogen | Home''),
      url_at = (\<lambda>_. ''https://shop.example/collections/frontpage''),
      visible_at = (\<lambda>_ _. True),
      count_of = (\<lambda>_. 4),
      attribute_of = (\<lambda>_ _. AttrReturns (Some ''/collections/frontpage''))\<rparr>"

definition stocked_shop :: site where
  "stocked_shop = (\<lambda>_. \<lparr>nav = NavReturns (Some (Response 200)), doc = all_ok_doc\<rparr>)"

text \<open>The same storefront with no product item on any page.\<close>

definition empty_shop :: site where
  "empty_shop =
     (\<lambda>_. \<lparr>nav = NavReturns (Some (Response 200)), doc = all_ok_doc\<lparr>count_of := (\<lambda>_. 0)\<rparr>\<rparr>)"

text \<open>A storefront that renders no product item and shows no element at all.\<close>

definition blank_shop :: site where
  "blank_shop =
     (\<lambda>_. \<lparr>nav = NavReturns (Some (Response 200)),
           doc = all_ok_doc\<lparr>visible_at := (\<lambda>_ _. False), count_of := (\<lambda>_. 0)\<rparr>\<rparr>)"

text \<open>The same storefront with a connection that stays open, so the network never idles.\<close>

definition busy_shop :: site where
  "busy_shop =
     (\<lambda>_. \<lparr>nav = NavReturns (Some (Response 200)), doc = all_ok_doc\<lparr>network_idle := False\<rparr>\<rparr>)"

text \<open>A storefront whose elements carry no attributes, and whose pages show no element.\<close>

definition bare_shop :: site where
  "bare_shop =
     (\<lambda>_. \<lparr>nav = NavReturns (Some (Response 200)),
           doc = all_ok_doc\<lparr>visible_at := (\<lambda>_ _. False),
                            attribute_of := (\<lambda>_ _. AttrReturns None)\<rparr>\<rparr>)"

text \<open>A storefront whose product items are visible but carry no \<^verbatim>\<open>href\<close>.\<close>

definition hrefless_shop :: site where
  "hrefless_shop =
     (\<lambda>_. \<lparr>nav = NavReturns (Some (Response 200)),
           doc = all_ok_doc\<lparr>attribute_of := (\<lambda>_ _. AttrReturns None)\<rparr>\<rparr>)"

text \<open>A browser whose navigations resolve to \<^verbatim>\<open>null\<close>.\<close>

definition null_response_shop :: site where
  "null_response_shop = (\<lambda>_. \<lparr>nav = NavReturns None, doc = all_ok_doc\<rparr>)"

section \<open>The account login route\<close>

text \<open>
  \<^verbatim>\<open>app/routes/account_.login.jsx\<close>. The customer-account client belongs to the commerce
  platform: its \<^verbatim>\<open>login\<close> is taken as it comes, an operation on the outside world \<open>'w\<close> that
  yields a result \<open>'r\<close>.
\<close>

record login_options =
  countryCode :: string

record i18n =
  country :: string

record storefront =
  i18n :: i18n

record ('w, 'r) customer_account =
  login :: "login_options \<Rightarrow> 'w \<Rightarrow> 'r \<times> 'w"

record ('w, 'r) app_context =
  customerAccount :: "('w, 'r) customer_account"
  storefront :: storefront

text \<open>\<^verbatim>\<open>export async function loader({context})\<close>\<close>

definition loader :: "('w, 'r) app_context \<Rightarrow> 'w \<Rightarrow> 'r \<times> 'w" where
  "loader context =
     login (customerAccount context) \<lparr>countryCode = country (i18n (storefront context))\<rparr>"

text \<open>
  A login that answers with a redirect to the login page of the given country and records
  the call in the world, which is the list of calls made so far.
\<close>

definition recording_login :: "login_options \<Rightarrow> login_options list \<Rightarrow> string \<times> login_options list" where
  "recording_login opts calls = (''/login?country='' @ countryCode opts, calls @ [opts])"

definition sample_context :: "(login_options list, string) app_context" where
  "sample_context =
     \<lparr>customerAccount = \<lparr>login = recording_login\<rparr>,
      storefront = \<lparr>i18n = \<lparr>country = ''CA''\<rparr>\<rparr>\<rparr>"

section \<open>The deployment pipeline\<close>

text \<open>
  Modelled from the spec: the workflow files (\<^verbatim>\<open>ci.yml\<close>, \<^verbatim>\<open>pr-preview.yml\<close>,
  \<^verbatim>\<open>merge-queue.yml\<close>, \<^verbatim>\<open>rollback.yml\<close>) and the composite actions they call are not among
  the sources, which hold only their README. The four stages are therefore written down
  from sections 3, 4 and 7 of the specification, as the sequential state machine it
  describes; the step order agrees with the patterns quoted in the README. The linter,
  the build, the deployment command, the test runner and the hosting platform are
  external: their outcomes are a parameter.
\<close>

text \<open>
  Modelled from the spec: a revision, which the version-control system creates and no
  source file declares, has an identifier and a predecessor (section 3); the first
  revision of a history has no predecessor.
\<close>

datatype revision = Initial string | Revision string revision

fun predecessor :: "revision \<Rightarrow> revision option" where
  "predecessor (Initial i) = None"
| "predecessor (Revision i p) = Some p"

text \<open>Modelled from the spec: the target environment of a deployment (section 3).\<close>

datatype environment = Preview | Production

text \<open>Modelled from the spec: where a proposed change comes from (section 4.2).\<close>

datatype origin = SameRepository | ExternalFork

record proposed_change =
  head_revision :: revision
  origin :: origin

text \<open>
  Modelled from the spec: the steps of the stages (section 4), each with what it works
  on, and the outcome a step is reported with.
\<close>

datatype stage =
    Lint
  | TypeCheck
  | Build
  | AcceptanceTest string
  | Authenticate
  | Deploy environment revision
  | PostComment string
  | DetermineTarget
  | Checkout revision
  | Notify

datatype outcome = Succeeded | Failed | Skipped

type_synonym report = "(stage \<times> outcome) list"

text \<open>
  Modelled from the spec: the external collaborators (section 1), as the outcomes they
  give: whether the static checks and the build pass on a revision, whether the acceptance
  suite passes against a base URL, whether authentication succeeds, and the URL a
  deployment yields (none when the deployment fails).
\<close>

record tools =
  lint_passes :: "revision \<Rightarrow> bool"
  typecheck_passes :: "revision \<Rightarrow> bool"
  build_passes :: "revision \<Rightarrow> bool"
  tests_pass :: "string \<Rightarrow> bool"
  authenticates :: bool
  deployed_url :: "environment \<Rightarrow> revision \<Rightarrow> string option"

text \<open>
  Modelled from the spec: steps run in order and a stage fails fast (sections 4.1 and 5).
  A step is a label, its condition and the outcome of executing it; it is executed when
  no earlier step has failed and its condition holds, and reported as skipped otherwise.
\<close>

fun run_steps :: "bool \<Rightarrow> (stage \<times> bool \<times> bool) list \<Rightarrow> report" where
  "run_steps ok [] = []"
| "run_steps ok ((stg, condition, succeeds) # rest) =
     (if ok \<and> condition
      then (stg, if succeeds then Succeeded else Failed) # run_steps succeeds rest
      else (stg, Skipped) # run_steps ok rest)"

text \<open>Modelled from the spec: a report is a success when no step failed.\<close>

definition succeeded :: "report \<Rightarrow> bool" where
  "succeeded log = list_all (\<lambda>entry. snd entry \<noteq> Failed) log"

text \<open>
  Modelled from the spec: Integration Check (section 4.1), whose workflow \<^verbatim>\<open>ci.yml\<close> is
  missing: lint, type-check, build, and, if and only if a base URL was supplied, the
  acceptance suite against it. The README gives the condition of the last step as
  \<^verbatim>\<open>inputs.playwright-base-url != ''\<close>.
\<close>

definition integration_check :: "tools \<Rightarrow> revision \<Rightarrow> string \<Rightarrow> report" where
  "integration_check tls rv base_url =
     run_steps True
       [(Lint, True, lint_passes tls rv),
        (TypeCheck, True, typecheck_passes tls rv),
        (Build, True, build_passes tls rv),
        (AcceptanceTest base_url, base_url \<noteq> [], tests_pass tls base_url)]"

text \<open>
  Modelled from the spec: the shared authentication and deployment helpers (sections 2
  and 4.2), whose actions \<^verbatim>\<open>setup-shopify-cli\<close> and \<^verbatim>\<open>deploy\<close> are missing: authenticate,
  then deploy, obtaining a URL.
\<close>

definition deploy_stage :: "tools \<Rightarrow> environment \<Rightarrow> revision \<Rightarrow> report \<times> string option" where
  "deploy_stage tls env rv =
     (if \<not> authenticates tls then ([(Authenticate, Failed)], None)
      else case deployed_url tls env rv of
             None \<Rightarrow> ([(Authenticate, Succeeded), (Deploy env rv, Failed)], None)
           | Some url \<Rightarrow> ([(Authenticate, Succeeded), (Deploy env rv, Succeeded)], Some url))"

text \<open>
  Modelled from the spec: Preview Publisher (section 4.2), whose workflow
  \<^verbatim>\<open>pr-preview.yml\<close> is missing: only for a proposed change from within the repository;
  Integration Check with no base URL, then the preview deployment, then the comment with
  its URL. A failed deployment aborts the stage with no comment.
\<close>

definition preview_publisher :: "tools \<Rightarrow> proposed_change \<Rightarrow> report" where
  "preview_publisher tls pc =
     (if origin pc = ExternalFork then []
      else let checks = integration_check tls (head_revision pc) [] in
        if \<not> succeeded checks then checks
        else case deploy_stage tls Preview (head_revision pc) of
               (log, None) \<Rightarrow> checks @ log
             | (log, Some url) \<Rightarrow> checks @ log @ [(PostComment url, Succeeded)])"

text \<open>
  Modelled from the spec: Production Publisher (section 4.3), whose workflow
  \<^verbatim>\<open>merge-queue.yml\<close> is missing: Integration Check with no base URL, then the production
  deployment, then the acceptance suite against the production URL; each is a
  precondition of the next.
\<close>

definition production_publisher :: "tools \<Rightarrow> revision \<Rightarrow> report" where
  "production_publisher tls rv =
     (let checks = integration_check tls rv [] in
        if \<not> succeeded checks then checks
        else case deploy_stage tls Production rv of
               (log, None) \<Rightarrow> checks @ log
             | (log, Some url) \<Rightarrow>
                 checks @ log @
                 [(AcceptanceTest url, if tests_pass tls url then Succeeded else Failed)])"

text \<open>
  Modelled from the spec: what starts the Rollback Agent (section 4.4), whose workflow
  \<^verbatim>\<open>rollback.yml\<close> is missing: a failure of Production Publisher on a revision, or an
  operator who supplies a revision.
\<close>

datatype trigger = Automatic revision | Manual revision

text \<open>
  Modelled from the spec: the trigger of \<^verbatim>\<open>rollback.yml\<close>, which is missing: any failure of
  Production Publisher triggers Rollback Agent (section 4.3); a success triggers nothing.
\<close>

definition triggered_rollbacks :: "tools \<Rightarrow> revision \<Rightarrow> trigger list" where
  "triggered_rollbacks tls rv =
     (if succeeded (production_publisher tls rv) then [] else [Automatic rv])"

text \<open>
  Modelled from the spec: the revision that the missing \<^verbatim>\<open>rollback.yml\<close> redeploys
  (section 4.4): the predecessor of the failed one, or the supplied one.
\<close>

fun rollback_target :: "trigger \<Rightarrow> revision option" where
  "rollback_target (Automatic failed) = predecessor failed"
| "rollback_target (Manual supplied) = Some supplied"

text \<open>
  Modelled from the spec: the job of the missing \<^verbatim>\<open>rollback.yml\<close> (section 4.4): determine
  the revision, check it out, run the deployment step alone, and notify.
\<close>

definition rollback_agent :: "tools \<Rightarrow> trigger \<Rightarrow> report" where
  "rollback_agent tls trg =
     (case rollback_target trg of
        None \<Rightarrow> [(DetermineTarget, Failed), (Notify, Succeeded)]
      | Some target \<Rightarrow>
          [(DetermineTarget, Succeeded), (Checkout target, Succeeded)]
          @ fst (deploy_stage tls Production target) @ [(Notify, Succeeded)])"

text \<open>The revisions a report checked out or deployed.\<close>

fun revisions_of :: "report \<Rightarrow> revision list" where
  "revisions_of [] = []"
| "revisions_of ((Checkout r, oc) # rest) = r # revisions_of rest"
| "revisions_of ((Deploy env r, oc) # rest) = r # revisions_of rest"
| "revisions_of (entry # rest) = revisions_of rest"

text \<open>The acceptance suite was executed against \<open>url\<close>: it ran, and passed or failed.\<close>

definition acceptance_executed :: "report \<Rightarrow> string \<Rightarrow> bool" where
  "acceptance_executed log url =
     ((AcceptanceTest url, Succeeded) \<in> set log \<or> (AcceptanceTest url, Failed) \<in> set log)"

text \<open>
  Acceptance tests start only after a successful production deployment: \<open>deployed\<close>
  tells whether one has completed before the report's first entry.
\<close>

fun tests_follow_deploy :: "bool \<Rightarrow> report \<Rightarrow> bool" where
  "tests_follow_deploy deployed [] = True"
| "tests_follow_deploy deployed (entry # rest) =
     (case fst entry of
        AcceptanceTest url \<Rightarrow>
          (snd entry = Skipped \<or> deployed) \<and> tests_follow_deploy deployed rest
      | Deploy env r \<Rightarrow>
          tests_follow_deploy (deployed \<or> (env = Production \<and> snd entry = Succeeded)) rest
      | _ \<Rightarrow> tests_follow_deploy deployed rest)"

subsection \<open>Sample runs\<close>

definition good_tools :: tools where
  "good_tools =
     \<lparr>lint_passes = (\<lambda>_. True), typecheck_passes = (\<lambda>_. True), build_passes = (\<lambda>_. True),
      tests_pass = (\<lambda>_. True), authenticates = True,
      deployed_url = (\<lambda>_ _. Some ''https://shop.example'')\<rparr>"

definition failing_lint_tools :: tools where
  "failing_lint_tools = good_tools\<lparr>lint_passes := (\<lambda>_. False)\<rparr>"

definition failing_tests_tools :: tools where
  "failing_tests_tools = good_tools\<lparr>tests_pass := (\<lambda>_. False)\<rparr>"

definition sample_revision :: revision where
  "sample_revision = Revision ''b2'' (Revision ''a1'' (Initial ''00''))"

definition fork_change :: proposed_change where
  "fork_change = \<lparr>head_revision = sample_revision, origin = ExternalFork\<rparr>"

section \<open>Properties of the acceptance scenarios\<close>

lemmas action_defs =
  and_then_def check_def goto_def status_of_def expect_to_be_def wait_for_load_state_def
  expect_to_have_title_def expect_to_have_url_def expect_to_be_visible_def count_def
  expect_to_be_greater_than_def get_attribute_def get_attribute_catch_null_def
  expect_to_be_truthy_def throw_error_def throw_if_falsy_def emit_def run_def passes_def
  fresh_page_def Let_def

lemmas claim_defs =
  responds_200_def reaches_network_idle_def title_has_marker_def rendered_product_items_def
  displays_recommended_heading_def displays_recommended_grid_def
  discoverable_collection_link_def displays_heading_def displays_product_grid_def
  url_matches_collections_def

lemmas sample_defs =
  all_ok_doc_def stocked_shop_def empty_shop_def blank_shop_def busy_shop_def bare_shop_def
  hrefless_shop_def null_response_shop_def

text \<open>A plain-word regular expression matches exactly the strings that contain the word.\<close>

lemma regex_test_sublist: "regex_test word subject = sublist word subject"
  by (induction subject) (auto simp add: sublist_Cons_right)

text \<open>A condition that does not change over time holds within any timeout or never.\<close>

lemma within_const [simp]: "within timeout (\<lambda>_. b) = b"
  by (auto simp add: within_def list_ex_iff intro: bexI[of _ 0])

lemma within_iff: "within timeout P \<longleftrightarrow> (\<exists>d\<le>timeout. P d)"
proof -
  have "set [0..<Suc timeout] = {..timeout}"
    by auto
  then show ?thesis
    unfolding within_def list_ex_iff by blast
qed

subsection \<open>The root page\<close>

text \<open>
  C8 (as amended). The scenario \<open>app loads successfully\<close> passes if and only if the
  navigation to the root path returns a response with status 200, the page then reaches
  the network-idle load state, and the page title contains \<open>Hydrogen\<close> at some moment
  within the 10000 ms of the title expectation.
\<close>

theorem app_loads_successfully_iff:
  "passes (app_loads_successfully st) \<longleftrightarrow>
     responds_200 st ''/'' \<and> reaches_network_idle st ''/'' \<and> title_has_marker st"
  by (auto simp add: app_loads_successfully_def action_defs claim_defs split: nav_result.splits)

theorem app_loads_successfully_iff_witness:
  "passes (app_loads_successfully stocked_shop) \<and>
   responds_200 stocked_shop ''/'' \<and> reaches_network_idle stocked_shop ''/'' \<and>
   title_has_marker stocked_shop"
proof -
  have "responds_200 stocked_shop ''/''" "reaches_network_idle stocked_shop ''/''"
    "title_has_marker stocked_shop"
    by (simp_all add: claim_defs sample_defs status_of_def)
  with app_loads_successfully_iff [of stocked_shop] show ?thesis by simp
qed

text \<open>
  The claim as stated leaves the network-idle wait out: on a site that answers 200 with
  the right title but never idles, the scenario fails.
\<close>

theorem app_loads_successfully_counterexample:
  "responds_200 busy_shop ''/'' \<and> title_has_marker busy_shop \<and>
   \<not> passes (app_loads_successfully busy_shop)"
  by (simp add: app_loads_successfully_def action_defs claim_defs sample_defs)

subsection \<open>The product listing of the homepage\<close>

text \<open>
  C5 (as amended). In the scenario \<open>homepage renders products\<close>: a homepage that renders
  zero product items never lets the scenario pass. When the steps before the count pass
  (the navigation answers 200, the network idles, the recommended-products heading and
  grid become visible), and whenever the run gets as far as counting, the run ends in the
  failure of the expectation that the count is greater than zero. The scenario passes
  only if the number of rendered product items is greater than zero.
\<close>

theorem homepage_zero_products_fails:
  "(rendered_product_items st = 0 \<longrightarrow> \<not> passes (homepage_renders_products st))
   \<and> (rendered_product_items st = 0 \<and> responds_200 st ''/'' \<and> reaches_network_idle st ''/''
        \<and> displays_recommended_heading st \<and> displays_recommended_grid st \<longrightarrow>
      fst (run (homepage_renders_products st)) = Inl (ExpectToBeGreaterThan 0 0))
   \<and> (Count (Css ''.product-item'') 0 \<in> set (snd (run (homepage_renders_products st))) \<longrightarrow>
      fst (run (homepage_renders_products st)) = Inl (ExpectToBeGreaterThan 0 0))
   \<and> (passes (homepage_renders_products st) \<longrightarrow> 0 < rendered_product_items st)"
  by (auto simp add: homepage_renders_products_def action_defs claim_defs
      split: nav_result.splits if_splits)

theorem homepage_zero_products_fails_witness:
  "rendered_product_items empty_shop = 0 \<and>
   responds_200 empty_shop ''/'' \<and> reaches_network_idle empty_shop ''/'' \<and>
   displays_recommended_heading empty_shop \<and> displays_recommended_grid empty_shop \<and>
   Count (Css ''.product-item'') 0 \<in> set (snd (run (homepage_renders_products empty_shop))) \<and>
   fst (run (homepage_renders_products empty_shop)) = Inl (ExpectToBeGreaterThan 0 0) \<and>
   \<not> passes (homepage_renders_products empty_shop) \<and>
   passes (homepage_renders_products stocked_shop) \<and>
   0 < rendered_product_items stocked_shop"
proof -
  have none: "rendered_product_items empty_shop = 0"
    by (simp add: claim_defs sample_defs)
  have before: "responds_200 empty_shop ''/''" "reaches_network_idle empty_shop ''/''"
    "displays_recommended_heading empty_shop" "displays_recommended_grid empty_shop"
    by (simp_all add: claim_defs sample_defs status_of_def)
  have reached: "Count (Css ''.product-item'') 0
      \<in> set (snd (run (homepage_renders_products empty_shop)))"
    by (simp add: homepage_renders_products_def action_defs sample_defs)
  have ok: "passes (homepage_renders_products stocked_shop)"
    by (simp add: homepage_renders_products_def action_defs sample_defs)
  from homepage_zero_products_fails [of empty_shop]
    homepage_zero_products_fails [of stocked_shop] none before reached ok
  show ?thesis by simp
qed

text \<open>
  The claim as stated has the count expectation fail on every homepage with zero product
  items: on a homepage that renders none and never shows the recommended-products
  heading, the run ends at the heading expectation, and neither counts nor reaches the
  count expectation.
\<close>

theorem homepage_zero_products_counterexample:
  "rendered_product_items blank_shop = 0 \<and>
   fst (run (homepage_renders_products blank_shop))
     = Inl (ExpectToBeVisible (HeadingNamed ''recommended products'') 15000 False) \<and>
   ExpectToBeGreaterThan 0 0 \<notin> set (snd (run (homepage_renders_products blank_shop)))"
  by (simp add: homepage_renders_products_def action_defs claim_defs sample_defs)

subsection \<open>The product detail page\<close>

text \<open>
  C6 (as amended). In the scenario \<open>product page loads and renders product details\<close>:
  when reading the \<open>href\<close> of the first product item yields no attribute, the run ends
  there, in the failure of the expectation that the product URL is truthy, and the
  homepage is the only page the run ever navigated to. The run throws no error object of
  its own: the guard that follows the expectation raises the missing-URL error on a
  missing or empty URL, but it stands behind the expectation and is not reached with one.
\<close>

theorem product_without_href_stops:
  assumes "run (product_page_loads_and_renders_product_details st) = (r, t)"
    and "GetAttribute (First (Css ''.product-item'')) ''href'' (AttrReturns None) \<in> set t"
  shows "r = Inl (ExpectToBeTruthy None) \<and> last t = ExpectToBeTruthy None \<and>
         (\<forall>url res. Goto url res \<in> set t \<longrightarrow> url = ''/'') \<and>
         (\<forall>message. ThrowError message \<notin> set t) \<and>
         fst (throw_if_falsy None ''No product URL found on homepage'' s)
           = Inl (ThrowError ''No product URL found on homepage'') \<and>
         fst (throw_if_falsy (Some []) ''No product URL found on homepage'' s)
           = Inl (ThrowError ''No product URL found on homepage'')"
  using assms
  by (auto simp add: product_page_loads_and_renders_product_details_def action_defs
      split: nav_result.splits attr_result.splits option.splits if_splits)

theorem product_without_href_stops_witness:
  "run (product_page_loads_and_renders_product_details hrefless_shop) =
     (Inl (ExpectToBeTruthy None),
      [Goto ''/'' (NavReturns (Some (Response 200))),
       ExpectToBe (Some 200) 200,
       WaitForLoadState True,
       ExpectToBeVisible (Css ''.recommended-products-grid'') 15000 True,
       ExpectToBeVisible (First (Css ''.product-item'')) 10000 True,
       GetAttribute (First (Css ''.product-item'')) ''href'' (AttrReturns None),
       ExpectToBeTruthy None])"
proof -
  obtain r t where rt: "run (product_page_loads_and_renders_product_details hrefless_shop) = (r, t)"
    by (cases "run (product_page_loads_and_renders_product_details hrefless_shop)")
  have t: "t = [Goto ''/'' (NavReturns (Some (Response 200))),
       ExpectToBe (Some 200) 200,
       WaitForLoadState True,
       ExpectToBeVisible (Css ''.recommended-products-grid'') 15000 True,
       ExpectToBeVisible (First (Css ''.product-item'')) 10000 True,
       GetAttribute (First (Css ''.product-item'')) ''href'' (AttrReturns None),
       ExpectToBeTruthy None]"
    using rt
    by (simp add: product_page_loads_and_renders_product_details_def action_defs sample_defs)
  then have "GetAttribute (First (Css ''.product-item'')) ''href'' (AttrReturns None) \<in> set t"
    by simp
  from product_without_href_stops [OF rt this] rt t show ?thesis by simp
qed

text \<open>
  The claim as stated has the scenario raise the missing-URL error: on a storefront whose
  first product item has no \<open>href\<close>, the run ends in the failed expectation and not in a
  thrown error object.
\<close>

theorem product_without_href_counterexample:
  "GetAttribute (First (Css ''.product-item'')) ''href'' (AttrReturns None)
     \<in> set (snd (run (product_page_loads_and_renders_product_details hrefless_shop))) \<and>
   fst (run (product_page_loads_and_renders_product_details hrefless_shop))
     = Inl (ExpectToBeTruthy None) \<and>
   \<not> ends_in_thrown_error (fst (run (product_page_loads_and_renders_product_details hrefless_shop)))"
  by (simp add: product_page_loads_and_renders_product_details_def action_defs sample_defs)

text \<open>No run of the scenario, on any site, contains a thrown error object.\<close>

lemma product_page_never_throws_explicitly:
  "ThrowError message \<notin> set (snd (run (product_page_loads_and_renders_product_details st)))"
  by (auto simp add: product_page_loads_and_renders_product_details_def action_defs
      split: nav_result.splits attr_result.splits option.splits if_splits)

subsection \<open>The collections page\<close>

text \<open>
  C7 (as amended). In the scenario \<open>collections page loads and displays products\<close>: when
  the homepage offers a collection link, the scenario passes exactly when the homepage
  and the linked page both answer 200 and reach network idle and the linked page shows a
  heading and a product grid; when it offers none, the scenario navigates to
  \<open>/collections\<close> and passes exactly when that page answers 200 and its URL matches the
  collections pattern, and the run makes no visibility check at all, so no product grid
  is asked for.
\<close>

theorem collections_scenario_contract:
  "(discoverable_collection_link st = Some href \<longrightarrow>
      (passes (collections_page_loads_and_displays_products st) \<longleftrightarrow>
         responds_200 st ''/'' \<and> reaches_network_idle st ''/'' \<and>
         responds_200 st href \<and> reaches_network_idle st href \<and>
         displays_heading st href \<and> displays_product_grid st href))
   \<and> (discoverable_collection_link st = None \<longrightarrow>
      (passes (collections_page_loads_and_displays_products st) \<longleftrightarrow>
         responds_200 st ''/'' \<and> reaches_network_idle st ''/'' \<and>
         responds_200 st ''/collections'' \<and> url_matches_collections st ''/collections'')
      \<and> \<not> list_ex is_visibility_check (snd (run (collections_page_loads_and_displays_products st)))
      \<and> (responds_200 st ''/'' \<and> reaches_network_idle st ''/'' \<longrightarrow>
           Goto ''/collections'' (nav (st ''/collections''))
             \<in> set (snd (run (collections_page_loads_and_displays_products st)))))"
  by (auto simp add: collections_page_loads_and_displays_products_def collection_link_branch_def
      collections_fallback_branch_def action_defs claim_defs
      split: nav_result.splits attr_result.splits option.splits if_splits)

theorem collections_scenario_contract_witness:
  "discoverable_collection_link stocked_shop = Some ''/collections/frontpage'' \<and>
   passes (collections_page_loads_and_displays_products stocked_shop) \<and>
   displays_product_grid stocked_shop ''/collections/frontpage'' \<and>
   discoverable_collection_link bare_shop = None \<and>
   passes (collections_page_loads_and_displays_products bare_shop) \<and>
   Goto ''/collections'' (nav (bare_shop ''/collections''))
     \<in> set (snd (run (collections_page_loads_and_displays_products bare_shop)))"
proof -
  have link: "discoverable_collection_link stocked_shop = Some ''/collections/frontpage''"
    by (simp add: claim_defs sample_defs)
  have linked: "responds_200 stocked_shop ''/''" "reaches_network_idle stocked_shop ''/''"
    "responds_200 stocked_shop ''/collections/frontpage''"
    "reaches_network_idle stocked_shop ''/collections/frontpage''"
    "displays_heading stocked_shop ''/collections/frontpage''"
    "displays_product_grid stocked_shop ''/collections/frontpage''"
    by (simp_all add: claim_defs sample_defs status_of_def)
  have nolink: "discoverable_collection_link bare_shop = None"
    by (simp add: claim_defs sample_defs)
  have fallback: "responds_200 bare_shop ''/''" "reaches_network_idle bare_shop ''/''"
    "responds_200 bare_shop ''/collections''" "url_matches_collections bare_shop ''/collections''"
    by (simp_all add: claim_defs sample_defs status_of_def)
  from collections_scenario_contract [of stocked_shop "''/collections/frontpage''"]
    collections_scenario_contract [of bare_shop] link linked nolink fallback
  show ?thesis by simp
qed

text \<open>
  The claim as stated has the fallback still show a product grid: on a site that offers no
  collection link and shows no product grid anywhere, the scenario passes all the same.
\<close>

theorem collections_fallback_counterexample:
  "discoverable_collection_link bare_shop = None \<and>
   passes (collections_page_loads_and_displays_products bare_shop) \<and>
   \<not> displays_product_grid bare_shop ''/collections''"
  by (simp add: collections_page_loads_and_displays_products_def collections_fallback_branch_def
      action_defs claim_defs sample_defs)

subsection \<open>Every navigation is checked\<close>








section \<open>Properties of the login route\<close>

text \<open>
  C10. The loader returns what \<^verbatim>\<open>context.customerAccount.login\<close> returns when called with
  \<^verbatim>\<open>countryCode\<close> equal to \<^verbatim>\<open>context.storefront.i18n.country\<close>, and leaves the world as
  that one call leaves it.
\<close>

theorem loader_is_login_call:
  "loader ctx w = login (customerAccount ctx) \<lparr>countryCode = country (i18n (storefront ctx))\<rparr> w"
  by (simp add: loader_def)

theorem loader_is_login_call_witness:
  "loader sample_context [] = (''/login?country=CA'', [\<lparr>countryCode = ''CA''\<rparr>])"
  using loader_is_login_call [of sample_context "[]"]
  by (simp add: sample_context_def recording_login_def)

section \<open>Properties of the deployment pipeline\<close>

lemmas pipeline_defs =
  integration_check_def deploy_stage_def preview_publisher_def production_publisher_def
  triggered_rollbacks_def rollback_agent_def succeeded_def acceptance_executed_def Let_def

lemmas sample_run_defs =
  good_tools_def failing_lint_tools_def failing_tests_tools_def sample_revision_def
  fork_change_def

text \<open>A revision is never its own predecessor.\<close>

lemma predecessor_differs: "predecessor rv = Some p \<Longrightarrow> p \<noteq> rv"
proof -
  assume "predecessor rv = Some p"
  then have "size p < size rv"
    by (cases rv) auto
  then show "p \<noteq> rv"
    by auto
qed

subsection \<open>Integration Check\<close>

text \<open>
  C3 (as amended). When no base URL is supplied, Integration Check reports the
  acceptance-test step as skipped, executes it against no URL, and succeeds exactly when
  lint, type-check and build pass. When a base URL is supplied and lint, type-check and
  build pass, the acceptance-test step is executed, against that URL and no other.
\<close>

theorem integration_check_acceptance_gate:
  "(base_url = [] \<longrightarrow>
      (AcceptanceTest [], Skipped) \<in> set (integration_check tls rv base_url)
      \<and> \<not> acceptance_executed (integration_check tls rv base_url) url
      \<and> (succeeded (integration_check tls rv base_url) \<longleftrightarrow>
           lint_passes tls rv \<and> typecheck_passes tls rv \<and> build_passes tls rv))
   \<and> (base_url \<noteq> [] \<and> lint_passes tls rv \<and> typecheck_passes tls rv \<and> build_passes tls rv \<longrightarrow>
      acceptance_executed (integration_check tls rv base_url) base_url
      \<and> (acceptance_executed (integration_check tls rv base_url) url \<longrightarrow> url = base_url))"
  by (auto simp add: pipeline_defs)

theorem integration_check_acceptance_gate_witness:
  "(AcceptanceTest [], Skipped) \<in> set (integration_check good_tools sample_revision [])
   \<and> succeeded (integration_check good_tools sample_revision [])
   \<and> ''http://localhost:3000'' \<noteq> []
   \<and> lint_passes good_tools sample_revision
   \<and> typecheck_passes good_tools sample_revision
   \<and> build_passes good_tools sample_revision
   \<and> acceptance_executed (integration_check good_tools sample_revision ''http://localhost:3000'')
       ''http://localhost:3000''"
proof -
  have supplied: "''http://localhost:3000'' \<noteq> []"
    by simp
  have passing: "lint_passes good_tools sample_revision"
    "typecheck_passes good_tools sample_revision" "build_passes good_tools sample_revision"
    by (simp_all add: sample_run_defs)
  from integration_check_acceptance_gate
         [of "[]" good_tools sample_revision "''http://localhost:3000''"]
    integration_check_acceptance_gate
         [of "''http://localhost:3000''" good_tools sample_revision "''http://localhost:3000''"]
    supplied passing
  show ?thesis by simp
qed

text \<open>
  The claim as stated has the acceptance-test step executed in every run with a base URL:
  when lint fails, the stage fails fast and the step is skipped although a base URL was
  supplied.
\<close>

theorem integration_check_counterexample:
  "''http://localhost:3000'' \<noteq> [] \<and>
   \<not> acceptance_executed
       (integration_check failing_lint_tools sample_revision ''http://localhost:3000'')
       ''http://localhost:3000''"
  by (simp add: pipeline_defs sample_run_defs)

subsection \<open>Preview Publisher\<close>

text \<open>
  C4. For a proposed change that comes from an external fork, Preview Publisher runs no
  step at all; in particular it deploys no preview.
\<close>

theorem preview_never_runs_for_fork:
  "origin pc = ExternalFork \<Longrightarrow> preview_publisher tls pc = []"
  by (simp add: preview_publisher_def)

theorem preview_never_runs_for_fork_witness:
  "origin fork_change = ExternalFork \<and> preview_publisher good_tools fork_change = []"
proof -
  have fork: "origin fork_change = ExternalFork"
    by (simp add: fork_change_def)
  from preview_never_runs_for_fork [OF fork, of good_tools] fork show ?thesis
    by simp
qed

subsection \<open>Production Publisher\<close>

lemma tests_follow_deploy_split:
  "tests_follow_deploy deployed log \<Longrightarrow> log = pre @ (AcceptanceTest url, oc) # post \<Longrightarrow>
   oc \<noteq> Skipped \<Longrightarrow> deployed \<or> (\<exists>r. (Deploy Production r, Succeeded) \<in> set pre)"
proof (induction log arbitrary: deployed pre)
  case Nil
  then show ?case by simp
next
  case (Cons entry rest)
  show ?case
  proof (cases pre)
    case Nil
    with Cons.prems show ?thesis by simp
  next
    case (Cons entry' pre')
    with Cons.prems have rest: "rest = pre' @ (AcceptanceTest url, oc) # post"
      and same: "entry' = entry"
      by simp_all
    show ?thesis
    proof (cases "fst entry")
      case (Deploy env r)
      with Cons.prems(1)
      have "tests_follow_deploy (deployed \<or> (env = Production \<and> snd entry = Succeeded)) rest"
        by simp
      from Cons.IH [OF this rest Cons.prems(3)] Deploy same \<open>pre = entry' # pre'\<close>
      show ?thesis by (cases entry) auto
    qed (use Cons.prems Cons.IH [OF _ rest Cons.prems(3), of deployed]
          \<open>pre = entry' # pre'\<close> in auto)
  qed
qed

lemma production_tests_follow_deploy:
  "tests_follow_deploy False (production_publisher tls rv)"
  by (simp add: pipeline_defs split: option.splits)

lemma production_deploys_own_revision:
  "(Deploy env r, oc) \<in> set (production_publisher tls rv) \<Longrightarrow> r = rv"
  by (auto simp add: pipeline_defs split: option.splits if_splits)

text \<open>
  C2. In the report of a Production Publisher run, every acceptance-test step that was
  executed (not skipped) comes after the successful production deployment of the run's
  revision.
\<close>

theorem production_tests_after_deploy:
  assumes "production_publisher tls rv = pre @ (AcceptanceTest url, oc) # post"
    and "oc \<noteq> Skipped"
  shows "(Deploy Production rv, Succeeded) \<in> set pre"
proof -
  from tests_follow_deploy_split [OF production_tests_follow_deploy assms]
  obtain r where r: "(Deploy Production r, Succeeded) \<in> set pre"
    by auto
  with assms(1) have "(Deploy Production r, Succeeded) \<in> set (production_publisher tls rv)"
    by simp
  then have "r = rv"
    by (rule production_deploys_own_revision)
  with r show ?thesis
    by simp
qed

theorem production_tests_after_deploy_witness:
  "production_publisher good_tools sample_revision =
     [(Lint, Succeeded), (TypeCheck, Succeeded), (Build, Succeeded),
      (AcceptanceTest [], Skipped), (Authenticate, Succeeded),
      (Deploy Production sample_revision, Succeeded)]
     @ (AcceptanceTest ''https://shop.example'', Succeeded) # []
   \<and> Succeeded \<noteq> Skipped
   \<and> (Deploy Production sample_revision, Succeeded)
       \<in> set [(Lint, Succeeded), (TypeCheck, Succeeded), (Build, Succeeded),
              (AcceptanceTest [], Skipped), (Authenticate, Succeeded),
              (Deploy Production sample_revision, Succeeded)]"
proof -
  have split: "production_publisher good_tools sample_revision =
     [(Lint, Succeeded), (TypeCheck, Succeeded), (Build, Succeeded),
      (AcceptanceTest [], Skipped), (Authenticate, Succeeded),
      (Deploy Production sample_revision, Succeeded)]
     @ (AcceptanceTest ''https://shop.example'', Succeeded) # []"
    by (simp add: pipeline_defs sample_run_defs)
  have executed: "Succeeded \<noteq> Skipped"
    by simp
  from production_tests_after_deploy [OF split executed] split executed show ?thesis
    by blast
qed

subsection \<open>Rollback Agent\<close>

text \<open>
  C1. A failed Production Publisher run on a revision triggers exactly one Rollback Agent
  run, and a successful one triggers none; every revision that the automatically
  triggered run checks out or deploys is the predecessor of the failed revision, and is
  not the failed revision; and when the failed revision has a predecessor, that
  predecessor is checked out.
\<close>

theorem rollback_redeploys_predecessor:
  "(\<not> succeeded (production_publisher tls rv) \<longrightarrow> triggered_rollbacks tls rv = [Automatic rv])
   \<and> (succeeded (production_publisher tls rv) \<longrightarrow> triggered_rollbacks tls rv = [])
   \<and> (\<forall>r \<in> set (revisions_of (rollback_agent tls (Automatic rv))).
         predecessor rv = Some r \<and> r \<noteq> rv)
   \<and> (predecessor rv = Some p \<longrightarrow>
         (Checkout p, Succeeded) \<in> set (rollback_agent tls (Automatic rv)))"
  by (auto simp add: triggered_rollbacks_def rollback_agent_def deploy_stage_def
      dest: predecessor_differs split: option.splits)

theorem rollback_redeploys_predecessor_witness:
  "\<not> succeeded (production_publisher failing_tests_tools sample_revision)
   \<and> triggered_rollbacks failing_tests_tools sample_revision = [Automatic sample_revision]
   \<and> succeeded (production_publisher good_tools sample_revision)
   \<and> triggered_rollbacks good_tools sample_revision = []
   \<and> predecessor sample_revision = Some (Revision ''a1'' (Initial ''00''))
   \<and> Revision ''a1'' (Initial ''00'')
       \<in> set (revisions_of (rollback_agent failing_tests_tools (Automatic sample_revision)))
   \<and> Revision ''a1'' (Initial ''00'') \<noteq> sample_revision"
proof -
  have failed: "\<not> succeeded (production_publisher failing_tests_tools sample_revision)"
    by (simp add: pipeline_defs sample_run_defs)
  have passed: "succeeded (production_publisher good_tools sample_revision)"
    by (simp add: pipeline_defs sample_run_defs)
  have pred: "predecessor sample_revision = Some (Revision ''a1'' (Initial ''00''))"
    by (simp add: sample_revision_def)
  have redeployed: "Revision ''a1'' (Initial ''00'')
      \<in> set (revisions_of (rollback_agent failing_tests_tools (Automatic sample_revision)))"
    by (simp add: pipeline_defs sample_run_defs)
  from rollback_redeploys_predecessor
         [of failing_tests_tools sample_revision "Revision ''a1'' (Initial ''00'')"]
    rollback_redeploys_predecessor
         [of good_tools sample_revision "Revision ''a1'' (Initial ''00'')"]
    failed passed pred redeployed
  show ?thesis by blast
qed

end
